theory Spec2Isabelle
  imports Main
begin

section \<open>Values of the JavaScript runtime\<close>

text \<open>
  The numbers of the model are the integers and \<open>NaN\<close>: page sizes, row counts and the
  absolute indices that cursors carry are integers, and \<open>NaN\<close> is what a missing or
  non-numeric index field becomes. Fractions and infinities are not represented.
  \<open>undefined\<close> and \<open>null\<close> are \<open>None\<close> of an option type. A string is a list of
  code units below 256, one character each.
\<close>

datatype number = Num int | NaN

text \<open>\<open>a + b\<close> on numbers.\<close>

fun num_add :: "number \<Rightarrow> number \<Rightarrow> number" where
  "num_add (Num a) (Num b) = Num (a + b)"
| "num_add _ _ = NaN"

text \<open>\<open>a * b\<close> on numbers.\<close>

fun num_mul :: "number \<Rightarrow> number \<Rightarrow> number" where
  "num_mul (Num a) (Num b) = Num (a * b)"
| "num_mul _ _ = NaN"

text \<open>\<open>a < b\<close> on numbers: false as soon as one side is \<open>NaN\<close>.\<close>

fun num_lt :: "number \<Rightarrow> number \<Rightarrow> bool" where
  "num_lt (Num a) (Num b) = (a < b)"
| "num_lt _ _ = False"

text \<open>\<open>a === b\<close> on numbers: \<open>NaN\<close> equals nothing, itself included.\<close>

fun num_eq :: "number \<Rightarrow> number \<Rightarrow> bool" where
  "num_eq (Num a) (Num b) = (a = b)"
| "num_eq _ _ = False"

text \<open>The truthiness test \<open>if (s)\<close> on an optional string: \<open>undefined\<close> and the empty string are falsy.\<close>

fun truthy :: "string option \<Rightarrow> bool" where
  "truthy None = False"
| "truthy (Some s) = (s \<noteq> [])"

text \<open>\<open>xs[i]\<close>: \<open>undefined\<close> outside the array.\<close>

definition at_index :: "'a list \<Rightarrow> int \<Rightarrow> 'a option" where
  "at_index xs i = (if 0 \<le> i \<and> i < int (length xs) then Some (xs ! nat i) else None)"

subsection \<open>Numbers to strings and back\<close>

definition digit_char :: "nat \<Rightarrow> char" where
  "digit_char d = ''0123456789'' ! (d mod 10)"

text \<open>The position of the first occurrence of \<open>x\<close> in a list.\<close>

fun position :: "'a \<Rightarrow> 'a list \<Rightarrow> nat option" where
  "position x [] = None"
| "position x (y # ys) = (if x = y then Some 0 else map_option Suc (position x ys))"

definition digit_value :: "char \<Rightarrow> nat option" where
  "digit_value c = position c ''0123456789''"

fun decimal :: "nat \<Rightarrow> string" where
  "decimal n = (if n < 10 then [digit_char n] else decimal (n div 10) @ [digit_char (n mod 10)])"

declare decimal.simps [simp del]

text \<open>
  The string a template literal \<open>${n}\<close> inserts for a number: decimal digits with a
  leading minus sign for an integer, \<open>NaN\<close> for \<open>NaN\<close>. (JavaScript switches to
  exponent notation from \<open>10^21\<close> on; indices of that size are outside the model.)
\<close>

fun number_to_string :: "number \<Rightarrow> string" where
  "number_to_string NaN = ''NaN''"
| "number_to_string (Num i) = (if i < 0 then CHR ''-'' # decimal (nat (- i)) else decimal (nat i))"

fun digits_value :: "nat \<Rightarrow> string \<Rightarrow> nat option" where
  "digits_value acc [] = Some acc"
| "digits_value acc (c # cs) =
     (case digit_value c of None \<Rightarrow> None | Some d \<Rightarrow> digits_value (10 * acc + d) cs)"

definition unsigned_value :: "string \<Rightarrow> nat option" where
  "unsigned_value cs = (if cs = [] then None else digits_value 0 cs)"

definition is_space :: "char \<Rightarrow> bool" where
  "is_space c \<longleftrightarrow> c \<in> {CHR '' '', CHR 0x09, CHR 0x0A, CHR 0x0B, CHR 0x0C, CHR 0x0D, CHR 0xA0}"

definition trim :: "string \<Rightarrow> string" where
  "trim s = rev (dropWhile is_space (rev (dropWhile is_space s)))"

text \<open>
  The conversion of a string to a number that \<open>s * 1\<close> applies to \<open>s\<close>: white space
  around the literal is dropped, the empty string is \<open>0\<close>, an optionally signed run of
  decimal digits is its value, and a string that is no numeric literal is \<open>NaN\<close>.
  Outside this fragment the model departs from the runtime: a literal with a fraction, an
  exponent or a radix prefix and \<open>Infinity\<close> have a numeric value there and are
  \<open>NaN\<close> here, and an integer beyond \<open>2^53\<close> is rounded to a double there and kept
  exact here. No statement below depends on the value of such a field.
\<close>

definition string_to_number :: "string \<Rightarrow> number" where
  "string_to_number s =
     (let t = trim s in
      if t = [] then Num 0
      else case t of
        c # cs \<Rightarrow>
          if c = CHR ''-'' then (case unsigned_value cs of None \<Rightarrow> NaN | Some n \<Rightarrow> Num (- int n))
          else if c = CHR ''+'' then (case unsigned_value cs of None \<Rightarrow> NaN | Some n \<Rightarrow> Num (int n))
          else (case unsigned_value t of None \<Rightarrow> NaN | Some n \<Rightarrow> Num (int n)))"

text \<open>The conversion to a number of an array element that may be \<open>undefined\<close>.\<close>

fun to_number :: "string option \<Rightarrow> number" where
  "to_number None = NaN"
| "to_number (Some s) = string_to_number s"

text \<open>\<open>s.split(sep)\<close> for a one-character separator: always at least one field.\<close>

fun split_on :: "char \<Rightarrow> string \<Rightarrow> string list" where
  "split_on sep [] = [[]]"
| "split_on sep (c # cs) =
     (if c = sep then [] # split_on sep cs
      else (case split_on sep cs of [] \<Rightarrow> [[c]] | f # fs \<Rightarrow> (c # f) # fs))"

section \<open>Errors\<close>

text \<open>
  The two error classes of the package, the plain \<open>Error\<close> that \<open>paginate\<close> throws
  with a message, and the \<open>TypeError\<close> the runtime raises when a property of
  \<open>undefined\<close> is read. \<open>InvalidCursorTypeError\<close> carries the expected type and the
  actual one, which is \<open>undefined\<close> when the payload has no second field.
\<close>

datatype error =
    InvalidCursorError
  | InvalidCursorTypeError string "string option"
  | Error string
  | TypeError

section \<open>Cursors\<close>

text \<open>
  A decoded cursor. \<open>id\<close> is \<open>undefined\<close> when the payload has fewer than three
  fields.
\<close>

record Cursor =
  cursor_id :: "string option"
  cursor_type :: string
  cursor_index :: number

text \<open>
  \<open>encode\<close> and \<open>decode\<close> of the package \<open>opaqueid\<close> are not part of this
  repository: they are the parameters \<open>enc\<close> and \<open>dec\<close>.
\<close>

text \<open>The codec that leaves the payload as it is: it serves the examples below.\<close>

fun plain_codec :: "string \<Rightarrow> string" where
  "plain_codec s = s"

text \<open>
  \<open>opaqueid\<close> encodes the UTF-8 bytes of a string in base64 and decodes base64 to a
  string with one character for each byte. \<open>utf8_codec\<close> is that encoding with the
  base64 step left out, so that \<open>plain_codec\<close> is its decoding: what is decoded is the
  UTF-8 bytes of what was encoded. A character below 128 (top bit \<open>b7\<close> clear) is its
  own byte; one from 128 on becomes the two bytes \<open>110000 b7 b6\<close> and
  \<open>10 b5 b4 b3 b2 b1 b0\<close>.
\<close>

fun ascii_char :: "char \<Rightarrow> bool" where
  "ascii_char (Char b0 b1 b2 b3 b4 b5 b6 b7) = (\<not> b7)"

fun utf8_unit :: "char \<Rightarrow> string" where
  "utf8_unit (Char b0 b1 b2 b3 b4 b5 b6 b7) =
     (if b7 then [Char b6 b7 False False False False True True,
                  Char b0 b1 b2 b3 b4 b5 False True]
      else [Char b0 b1 b2 b3 b4 b5 b6 b7])"

fun utf8_codec :: "string \<Rightarrow> string" where
  "utf8_codec s = concat (map utf8_unit s)"

definition encodeCursor :: "(string \<Rightarrow> string) \<Rightarrow> string \<Rightarrow> string \<Rightarrow> number \<Rightarrow> string" where
  "encodeCursor enc ident ty idx =
     enc (''C|'' @ ty @ ''|'' @ ident @ ''|'' @ number_to_string idx)"

definition decodeCursor :: "(string \<Rightarrow> string) \<Rightarrow> string \<Rightarrow> string \<Rightarrow> error + Cursor" where
  "decodeCursor dec cur ty =
     (let split = split_on CHR ''|'' (dec cur) in
      if at_index split 0 \<noteq> Some ''C'' then Inl InvalidCursorError
      else (case at_index split 1 of
              None \<Rightarrow> Inl (InvalidCursorTypeError ty None)
            | Some t \<Rightarrow>
                if t \<noteq> ty then Inl (InvalidCursorTypeError ty (Some t))
                else Inr \<lparr>cursor_id = at_index split 2,
                          cursor_type = t,
                          cursor_index = num_mul (to_number (at_index split 3)) (Num 1)\<rparr>))"

section \<open>Find options, pages and connections\<close>

datatype OrderDirection = ASC | DESC

record 'f Order =
  direction :: OrderDirection
  field :: 'f

text \<open>\<open>orderBy\<close> and \<open>after\<close> are optional: \<open>None\<close> is the absent property.\<close>

record 'f FindOptions =
  first :: number
  orderBy :: "'f Order option"
  after :: "string option"

record PageInfo =
  endCursor :: "string option"
  startCursor :: "string option"
  hasNextPage :: bool
  hasPreviousPage :: bool

record 'e Edge =
  node :: 'e
  cursor :: string

record 'e Connection =
  totalCount :: nat
  pageInfo :: PageInfo
  edges :: "'e Edge list"

text \<open>An entity is any record with a string \<open>id\<close>.\<close>

record Entity =
  entity_id :: string

text \<open>
  The TypeORM query builder is not part of this repository. A builder is modelled by what
  it answers: \<open>getCount\<close> for an order key and a direction, \<open>getMany\<close> for an
  order key, a direction, the argument of \<open>skip\<close> and the argument of \<open>take\<close>.
  A repository makes a builder from an alias.
\<close>

record 'e SelectQueryBuilder =
  getCount :: "string \<Rightarrow> OrderDirection \<Rightarrow> nat"
  getMany :: "string \<Rightarrow> OrderDirection \<Rightarrow> number \<Rightarrow> number \<Rightarrow> 'e list"

record 'e Repository =
  createQueryBuilder :: "string \<Rightarrow> 'e SelectQueryBuilder"

text \<open>
  The fields \<open>type\<close> and \<open>alias\<close> of the options are \<open>type_name\<close> and
  \<open>alias_name\<close> here. An absent
  \<open>validateCursor\<close> is falsy: \<open>False\<close>.
\<close>

record ('e, 'f) PaginateOptions =
  type_name :: string
  alias_name :: string
  validateCursor :: bool
  orderFieldToKey :: "'f \<Rightarrow> string"
  queryBuilder :: "'e SelectQueryBuilder option"
  repository :: "'e Repository option"

section \<open>The paginator\<close>

text \<open>
  The start of \<open>paginate\<close> (lines 230 to 245): \<open>skip\<close>, the decoded cursor if
  there is one, and \<open>dbTake\<close>. Both tests are \<open>findOptions.after\<close> taken as a
  condition, so an empty string counts as no cursor.
\<close>

definition cursor_window ::
  "(string \<Rightarrow> string) \<Rightarrow> 'f FindOptions \<Rightarrow> ('e, 'f) PaginateOptions \<Rightarrow>
   error + (number \<times> Cursor option \<times> number)" where
  "cursor_window dec findOptions options =
     (case after findOptions of
        None \<Rightarrow> Inr (Num 0, None, num_add (first findOptions) (Num 1))
      | Some c \<Rightarrow>
          if truthy (Some c) then
            (case decodeCursor dec c (type_name options) of
               Inl e \<Rightarrow> Inl e
             | Inr decodedCursor \<Rightarrow>
                 Inr (cursor_index decodedCursor, Some decodedCursor,
                      num_add (first findOptions) (Num 2)))
          else Inr (Num 0, None, num_add (first findOptions) (Num 1)))"

text \<open>
  The query (lines 247 to 257): the given builder, else one made by the repository, else
  an error.
\<close>

definition select_query :: "('e, 'f) PaginateOptions \<Rightarrow> error + 'e SelectQueryBuilder" where
  "select_query options =
     (case queryBuilder options of
        Some q \<Rightarrow> Inr q
      | None \<Rightarrow>
          (case repository options of
             Some r \<Rightarrow> Inr (createQueryBuilder r (alias_name options))
           | None \<Rightarrow> Inl (Error ''A QueryBuilder or Repository object must be provided to paginate.'')))"

text \<open>The order key (lines 260 to 262): the alias, a dot and the field name.\<close>

definition order_key :: "('e, 'f) PaginateOptions \<Rightarrow> 'f Order \<Rightarrow> string" where
  "order_key options ord = alias_name options @ ''.'' @ orderFieldToKey options (field ord)"

text \<open>
  The cursor check (lines 275 to 278). Reading \<open>results[0].id\<close> when \<open>results\<close> is empty raises a
  \<open>TypeError\<close>.
\<close>

definition check_cursor ::
  "Cursor option \<Rightarrow> ('a Entity_scheme, 'f) PaginateOptions \<Rightarrow> 'a Entity_scheme list \<Rightarrow> error + unit" where
  "check_cursor decodedCursor options results =
     (case decodedCursor of
        None \<Rightarrow> Inr ()
      | Some c \<Rightarrow>
          if validateCursor options then
            (case at_index results 0 of
               None \<Rightarrow> Inl TypeError
             | Some r \<Rightarrow> if cursor_id c \<noteq> Some (entity_id r) then Inl InvalidCursorError else Inr ())
          else Inr ())"

text \<open>The bound of the loop: \<open>results.length < dbTake ? results.length : results.length - 1\<close>.\<close>

definition loop_bound :: "'e list \<Rightarrow> number \<Rightarrow> int" where
  "loop_bound results dbTake =
     (if num_lt (Num (int (length results))) dbTake then int (length results)
      else int (length results) - 1)"

text \<open>The loop that pushes the edges (lines 282 to 291), from position \<open>i\<close> on.\<close>

function push_edges ::
  "(string \<Rightarrow> string) \<Rightarrow> string \<Rightarrow> number \<Rightarrow> 'a Entity_scheme list \<Rightarrow> int \<Rightarrow> int \<Rightarrow>
   'a Entity_scheme Edge list \<Rightarrow> error + 'a Entity_scheme Edge list" where
  "push_edges enc ty skip results bound i acc =
     (if i < bound then
        (case at_index results i of
           None \<Rightarrow> Inl TypeError
         | Some r \<Rightarrow>
             push_edges enc ty skip results bound (i + 1)
               (acc @ [\<lparr>node = r, cursor = encodeCursor enc (entity_id r) ty (num_add (Num i) skip)\<rparr>]))
      else Inr acc)"
  by pat_completeness auto
termination
  by (relation "measure (\<lambda>(enc, ty, skip, results, bound, i, acc). nat (bound - i))") auto

declare push_edges.simps [simp del]

text \<open>The page information (lines 293 to 298).\<close>

definition page_info ::
  "'e Edge list \<Rightarrow> 'e list \<Rightarrow> number \<Rightarrow> number \<Rightarrow> PageInfo" where
  "page_info es results dbTake skip =
     \<lparr>endCursor = (case at_index es (int (length es) - 1) of Some e \<Rightarrow> Some (cursor e) | None \<Rightarrow> None),
      startCursor = (case at_index es 0 of Some e \<Rightarrow> Some (cursor e) | None \<Rightarrow> None),
      hasNextPage = num_eq (Num (int (length results))) dbTake,
      hasPreviousPage = (\<not> num_eq skip (Num 0))\<rparr>"

text \<open>
  \<open>paginate\<close> (lines 226 to 305). The order is read after the cursor is decoded and
  the query chosen; an absent \<open>orderBy\<close> is \<open>undefined\<close>, and reading its
  \<open>field\<close> raises a \<open>TypeError\<close>. The count is asked before the rows.
\<close>

definition paginate ::
  "(string \<Rightarrow> string) \<Rightarrow> (string \<Rightarrow> string) \<Rightarrow> 'f FindOptions \<Rightarrow>
   ('a Entity_scheme, 'f) PaginateOptions \<Rightarrow> error + 'a Entity_scheme Connection" where
  "paginate enc dec findOptions options =
     (case cursor_window dec findOptions options of
        Inl e \<Rightarrow> Inl e
      | Inr (skip, decodedCursor, dbTake) \<Rightarrow>
     (case select_query options of
        Inl e \<Rightarrow> Inl e
      | Inr query \<Rightarrow>
     (case orderBy findOptions of
        None \<Rightarrow> Inl TypeError
      | Some ord \<Rightarrow>
          let key = order_key options ord;
              count = getCount query key (direction ord);
              results = getMany query key (direction ord) skip dbTake
          in
     (case check_cursor decodedCursor options results of
        Inl e \<Rightarrow> Inl e
      | Inr _ \<Rightarrow>
     (case push_edges enc (type_name options) skip results (loop_bound results dbTake)
             (if truthy (after findOptions) then 1 else 0) [] of
        Inl e \<Rightarrow> Inl e
      | Inr es \<Rightarrow>
          Inr \<lparr>totalCount = count,
               pageInfo = page_info es results dbTake skip,
               edges = es\<rparr>)))))"

text \<open>
  A query builder over a fixed table whose rows are already in the requested order: it
  serves the examples below. It answers as TypeORM does: a positive \<open>take\<close> limits the
  rows, and a \<open>take\<close> of \<open>0\<close> sets no limit, so that every row from \<open>skip\<close> on is
  returned (a negative \<open>take\<close>, whose answer depends on the database, is read in the
  same way). For a \<open>skip\<close> or a \<open>take\<close> that is \<open>NaN\<close> TypeORM throws, which a
  builder of this model cannot do: this one answers with no row, and no example below
  asks it that.
\<close>

definition table_query :: "'e list \<Rightarrow> 'e SelectQueryBuilder" where
  "table_query rows =
     \<lparr>getCount = (\<lambda>key dir. length rows),
      getMany = (\<lambda>key dir skip tk.
        case skip of
          NaN \<Rightarrow> []
        | Num s \<Rightarrow>
            (case tk of
               NaN \<Rightarrow> []
             | Num t \<Rightarrow> if 0 < t then take (nat t) (drop (nat s) rows) else drop (nat s) rows))\<rparr>"

text \<open>The edge that the loop pushes at position \<open>i\<close>, for positions inside \<open>results\<close>.\<close>

definition edge_at ::
  "(string \<Rightarrow> string) \<Rightarrow> string \<Rightarrow> number \<Rightarrow> 'a Entity_scheme list \<Rightarrow> int \<Rightarrow> 'a Entity_scheme Edge" where
  "edge_at enc ty skip results i =
     \<lparr>node = results ! nat i,
      cursor = encodeCursor enc (entity_id (results ! nat i)) ty (num_add (Num i) skip)\<rparr>"

subsection \<open>Example data\<close>

definition example_rows :: "Entity list" where
  "example_rows =
     map (\<lambda>s. \<lparr>entity_id = s\<rparr>)
       [''u0'', ''u1'', ''u2'', ''u3'', ''u4'', ''u5'', ''u6'', ''u7'', ''u8'', ''u9'']"

definition example_order :: "string Order" where
  "example_order = \<lparr>direction = ASC, field = ''name''\<rparr>"

definition example_options :: "bool \<Rightarrow> Entity list \<Rightarrow> (Entity, string) PaginateOptions" where
  "example_options validate rows =
     \<lparr>type_name = ''User'', alias_name = ''user'', validateCursor = validate,
      orderFieldToKey = (\<lambda>f. f), queryBuilder = Some (table_query rows), repository = None\<rparr>"

definition example_find :: "int \<Rightarrow> string option \<Rightarrow> string FindOptions" where
  "example_find n cur = \<lparr>first = Num n, orderBy = Some example_order, after = cur\<rparr>"

definition example_middle_page :: "Entity Connection" where
  "example_middle_page =
     \<lparr>totalCount = 10,
      pageInfo = \<lparr>endCursor = Some ''C|User|u4|4'', startCursor = Some ''C|User|u3|3'',
                  hasNextPage = True, hasPreviousPage = True\<rparr>,
      edges = [\<lparr>node = \<lparr>entity_id = ''u3''\<rparr>, cursor = ''C|User|u3|3''\<rparr>,
               \<lparr>node = \<lparr>entity_id = ''u4''\<rparr>, cursor = ''C|User|u4|4''\<rparr>]\<rparr>"

definition example_empty_page :: "Entity Connection" where
  "example_empty_page =
     \<lparr>totalCount = 0,
      pageInfo = \<lparr>endCursor = None, startCursor = None, hasNextPage = False, hasPreviousPage = False\<rparr>,
      edges = []\<rparr>"

definition example_first_page :: "Entity Connection" where
  "example_first_page =
     \<lparr>totalCount = 10,
      pageInfo = \<lparr>endCursor = Some ''C|User|u1|1'', startCursor = Some ''C|User|u0|0'',
                  hasNextPage = True, hasPreviousPage = False\<rparr>,
      edges = [\<lparr>node = \<lparr>entity_id = ''u0''\<rparr>, cursor = ''C|User|u0|0''\<rparr>,
               \<lparr>node = \<lparr>entity_id = ''u1''\<rparr>, cursor = ''C|User|u1|1''\<rparr>]\<rparr>"

definition example_no_page :: "nat \<Rightarrow> Entity Connection" where
  "example_no_page n =
     \<lparr>totalCount = n,
      pageInfo = \<lparr>endCursor = None, startCursor = None, hasNextPage = True, hasPreviousPage = False\<rparr>,
      edges = []\<rparr>"

definition example_long_page :: "Entity Connection" where
  "example_long_page =
     \<lparr>totalCount = 10,
      pageInfo = \<lparr>endCursor = Some ''C|User|u8|8'', startCursor = Some ''C|User|u0|0'',
                  hasNextPage = False, hasPreviousPage = False\<rparr>,
      edges = [\<lparr>node = \<lparr>entity_id = ''u0''\<rparr>, cursor = ''C|User|u0|0''\<rparr>,
               \<lparr>node = \<lparr>entity_id = ''u1''\<rparr>, cursor = ''C|User|u1|1''\<rparr>,
               \<lparr>node = \<lparr>entity_id = ''u2''\<rparr>, cursor = ''C|User|u2|2''\<rparr>,
               \<lparr>node = \<lparr>entity_id = ''u3''\<rparr>, cursor = ''C|User|u3|3''\<rparr>,
               \<lparr>node = \<lparr>entity_id = ''u4''\<rparr>, cursor = ''C|User|u4|4''\<rparr>,
               \<lparr>node = \<lparr>entity_id = ''u5''\<rparr>, cursor = ''C|User|u5|5''\<rparr>,
               \<lparr>node = \<lparr>entity_id = ''u6''\<rparr>, cursor = ''C|User|u6|6''\<rparr>,
               \<lparr>node = \<lparr>entity_id = ''u7''\<rparr>, cursor = ''C|User|u7|7''\<rparr>,
               \<lparr>node = \<lparr>entity_id = ''u8''\<rparr>, cursor = ''C|User|u8|8''\<rparr>]\<rparr>"

definition example_no_source :: "(Entity, string) PaginateOptions" where
  "example_no_source =
     \<lparr>type_name = ''User'', alias_name = ''user'', validateCursor = True,
      orderFieldToKey = (\<lambda>f. f), queryBuilder = None, repository = None\<rparr>"

section \<open>Properties of the cursor codec\<close>

lemma split_on_nonempty: "split_on sep s \<noteq> []"
  by (induction s) (auto split: list.splits)

lemma split_on_no_sep: "sep \<notin> set s \<Longrightarrow> split_on sep s = [s]"
  by (induction s) auto

lemma split_on_field: "sep \<notin> set a \<Longrightarrow> split_on sep (a @ sep # rest) = a # split_on sep rest"
  by (induction a) (auto split: list.splits simp: split_on_nonempty)

lemma digit_value_digit_char: "digit_value (digit_char d) = Some (d mod 10)"
proof -
  have all: "\<forall>k<10. digit_value (''0123456789'' ! k) = Some k"
    by (simp add: digit_value_def numeral_eq_Suc All_less_Suc)
  have "d mod 10 < 10" by simp
  with all show ?thesis unfolding digit_char_def by blast
qed

lemma position_None_iff: "position x ys = None \<longleftrightarrow> x \<notin> set ys"
  by (induction ys) auto

lemma digit_value_Some_iff: "digit_value c \<noteq> None \<longleftrightarrow> c \<in> set ''0123456789''"
  unfolding digit_value_def position_None_iff by simp

lemma digit_char_in: "digit_char d \<in> set ''0123456789''"
  using digit_value_digit_char[of d] digit_value_Some_iff[of "digit_char d"] by simp

lemma decimal_chars: "set (decimal n) \<subseteq> set ''0123456789''"
proof (induction n rule: decimal.induct)
  case (1 n)
  show ?case
  proof (cases "n < 10")
    case True
    then show ?thesis using digit_char_in[of n] by (subst decimal.simps) simp
  next
    case False
    then show ?thesis using 1 digit_char_in[of "n mod 10"] by (subst decimal.simps) simp
  qed
qed

lemma decimal_nonempty: "decimal n \<noteq> []"
  by (subst decimal.simps) simp

lemma digits_value_snoc:
  "digits_value acc (cs @ [c]) =
     (case digits_value acc cs of None \<Rightarrow> None
      | Some v \<Rightarrow> (case digit_value c of None \<Rightarrow> None | Some d \<Rightarrow> Some (10 * v + d)))"
  by (induction cs arbitrary: acc) (auto split: option.splits)

lemma digits_value_decimal: "digits_value 0 (decimal n) = Some n"
proof (induction n rule: decimal.induct)
  case (1 n)
  show ?case
  proof (cases "n < 10")
    case True
    then show ?thesis by (subst decimal.simps) (simp add: digit_value_digit_char)
  next
    case False
    then show ?thesis using 1
      by (subst decimal.simps) (simp add: digits_value_snoc digit_value_digit_char)
  qed
qed

lemma trim_no_space:
  assumes "\<forall>c\<in>set s. \<not> is_space c"
  shows "trim s = s"
proof -
  have d: "dropWhile is_space t = t" if "\<forall>c\<in>set t. \<not> is_space c" for t
    using that by (cases t) auto
  show ?thesis using assms by (simp add: trim_def d)
qed

lemma string_to_number_decimal: "string_to_number (decimal n) = Num (int n)"
proof -
  have sub: "set (decimal n) \<subseteq> set ''0123456789''" by (rule decimal_chars)
  have nospace: "\<forall>c\<in>set (decimal n). \<not> is_space c"
    using sub by (auto simp: is_space_def)
  obtain c cs where dc: "decimal n = c # cs"
    using decimal_nonempty[of n] by (cases "decimal n") auto
  have "c \<in> set ''0123456789''" using sub dc by auto
  then have c: "c \<noteq> CHR ''-''" "c \<noteq> CHR ''+''" by auto
  have uv: "unsigned_value (decimal n) = Some n"
    by (simp add: unsigned_value_def decimal_nonempty digits_value_decimal)
  have tr: "trim (decimal n) = decimal n" by (rule trim_no_space[OF nospace])
  show ?thesis
    unfolding string_to_number_def tr Let_def
    using c uv dc by simp
qed

lemma number_roundtrip: "0 \<le> i \<Longrightarrow> string_to_number (number_to_string (Num i)) = Num i"
  by (simp add: string_to_number_decimal)

lemma number_to_string_no_bar: "CHR ''|'' \<notin> set (number_to_string n)"
proof (cases n)
  case (Num i)
  have "CHR ''|'' \<notin> set (decimal k)" for k using decimal_chars[of k] by auto
  then show ?thesis using Num by simp
next
  case NaN
  then show ?thesis by simp
qed

lemma utf8_unit_ascii: "ascii_char c \<Longrightarrow> utf8_unit c = [c]"
  by (cases c) simp

lemma utf8_codec_ascii: "\<forall>c\<in>set s. ascii_char c \<Longrightarrow> utf8_codec s = s"
  by (induction s) (simp_all add: utf8_unit_ascii)

lemma digits_ascii: "c \<in> set ''0123456789'' \<Longrightarrow> ascii_char c"
  by auto

lemma decimal_ascii: "c \<in> set (decimal n) \<Longrightarrow> ascii_char c"
  using decimal_chars[of n] digits_ascii by blast

text \<open>
  C2, as stated, fails for an id with a character outside ASCII. With the codec of
  \<open>opaqueid\<close> the id made of the one character \<open>0xE9\<close> comes back as the two
  characters \<open>0xC3\<close> and \<open>0xA9\<close>.
\<close>

theorem decodeCursor_encodeCursor_latin1:
  "decodeCursor plain_codec (encodeCursor utf8_codec [CHR 0xE9] ''User'' (Num 3)) ''User'' =
     Inr \<lparr>cursor_id = Some [CHR 0xC3, CHR 0xA9], cursor_type = ''User'', cursor_index = Num 3\<rparr> \<and>
   decodeCursor plain_codec (encodeCursor utf8_codec [CHR 0xE9] ''User'' (Num 3)) ''User'' \<noteq>
     Inr \<lparr>cursor_id = Some [CHR 0xE9], cursor_type = ''User'', cursor_index = Num 3\<rparr>"
  by code_simp

text \<open>
  C2, amended. A cursor made by \<open>encodeCursor\<close> from an id and a type whose characters
  are ASCII and are not the separator \<open>|\<close>, and from a non-negative integer index,
  decodes, against the same type, to exactly that id, type and index. The opaque codec
  is any pair that gives back every ASCII string it encoded, as the one of
  \<open>opaqueid\<close> does.
\<close>

theorem decodeCursor_encodeCursor:
  assumes codec: "\<And>s. \<forall>c\<in>set s. ascii_char c \<Longrightarrow> dec (enc s) = s"
    and ident: "\<forall>c\<in>set ident. ascii_char c \<and> c \<noteq> CHR ''|''"
    and ty: "\<forall>c\<in>set ty. ascii_char c \<and> c \<noteq> CHR ''|''"
    and "0 \<le> i"
  shows "decodeCursor dec (encodeCursor enc ident ty (Num i)) ty =
         Inr \<lparr>cursor_id = Some ident, cursor_type = ty, cursor_index = Num i\<rparr>"
proof -
  let ?payload = "''C|'' @ ty @ ''|'' @ ident @ ''|'' @ number_to_string (Num i)"
  have bar: "CHR ''|'' \<notin> set ident" "CHR ''|'' \<notin> set ty"
    using ident ty by auto
  have sp: "split_on CHR ''|'' ?payload = [''C'', ty, ident, number_to_string (Num i)]"
    using split_on_field[of "CHR ''|''" "''C''" "ty @ ''|'' @ ident @ ''|'' @ number_to_string (Num i)"]
      split_on_field[of "CHR ''|''" ty "ident @ ''|'' @ number_to_string (Num i)"]
      split_on_field[of "CHR ''|''" ident "number_to_string (Num i)"]
      split_on_no_sep[OF number_to_string_no_bar[of "Num i"]] bar
    by simp
  have num: "\<forall>c\<in>set (number_to_string (Num i)). ascii_char c"
    using \<open>0 \<le> i\<close> decimal_ascii by simp
  have "\<forall>c\<in>set ident. ascii_char c" "\<forall>c\<in>set ty. ascii_char c"
    using ident ty by blast+
  then have "\<forall>c\<in>set ?payload. ascii_char c"
    using num by (simp add: ball_Un)
  then have codec_payload: "dec (enc ?payload) = ?payload" by (rule codec)
  show ?thesis
    unfolding decodeCursor_def encodeCursor_def codec_payload sp
    using number_roundtrip[OF assms(4)]
    by (simp add: at_index_def)
qed

theorem decodeCursor_encodeCursor_witness:
  "decodeCursor plain_codec (encodeCursor utf8_codec ''u3'' ''User'' (Num 3)) ''User'' =
     Inr \<lparr>cursor_id = Some ''u3'', cursor_type = ''User'', cursor_index = Num 3\<rparr>"
proof -
  have h1: "plain_codec (utf8_codec s) = s" if "\<forall>c\<in>set s. ascii_char c" for s
    using utf8_codec_ascii[OF that] by simp
  have h2: "\<forall>c\<in>set ''u3''. ascii_char c \<and> c \<noteq> CHR ''|''" by code_simp
  have h3: "\<forall>c\<in>set ''User''. ascii_char c \<and> c \<noteq> CHR ''|''" by code_simp
  have h4: "(0::int) \<le> 3" by simp
  show ?thesis by (rule decodeCursor_encodeCursor[of plain_codec utf8_codec, OF h1 h2 h3 h4])
qed

lemma hd_split_on: "hd (split_on sep s) = takeWhile (\<lambda>c. c \<noteq> sep) s"
  by (induction s) (auto split: list.splits simp: split_on_nonempty)

lemma at_index_0: "xs \<noteq> [] \<Longrightarrow> at_index xs 0 = Some (hd xs)"
  by (cases xs) (simp_all add: at_index_def)

lemma tag_field_iff:
  "at_index (split_on CHR ''|'' s) 0 = Some ''C'' \<longleftrightarrow> s = ''C'' \<or> take 2 s = ''C|''"
proof -
  have "takeWhile (\<lambda>c. c \<noteq> CHR ''|'') s = ''C'' \<longleftrightarrow> s = ''C'' \<or> take 2 s = ''C|''"
  proof (cases s)
    case Nil
    then show ?thesis by simp
  next
    case (Cons c r)
    then show ?thesis by (cases r) auto
  qed
  then show ?thesis by (simp add: at_index_0 split_on_nonempty hd_split_on)
qed

text \<open>
  C4, as stated, fails: with the tag and the type in place, \<open>decodeCursor\<close> returns a
  cursor from a payload of two fields (\<open>id\<close> undefined, index \<open>NaN\<close>), from one whose
  index field is not a number (index \<open>NaN\<close>) and from one whose index is negative.
\<close>

theorem decodeCursor_short_payload:
  "decodeCursor plain_codec ''C|User'' ''User'' =
     Inr \<lparr>cursor_id = None, cursor_type = ''User'', cursor_index = NaN\<rparr> \<and>
   decodeCursor plain_codec ''C|User|u7|abc'' ''User'' =
     Inr \<lparr>cursor_id = Some ''u7'', cursor_type = ''User'', cursor_index = NaN\<rparr> \<and>
   decodeCursor plain_codec ''C|User|u7|-3'' ''User'' =
     Inr \<lparr>cursor_id = Some ''u7'', cursor_type = ''User'', cursor_index = Num (- 3)\<rparr>"
  by code_simp

text \<open>
  C4, amended. \<open>decodeCursor\<close> fails with \<open>InvalidCursorError\<close> exactly when the first
  field of the decoded payload is not the tag \<open>C\<close>, that is when the payload is neither
  \<open>C\<close> nor starts with \<open>C|\<close>; so it fails whenever the payload does not start with
  the character \<open>C\<close>. Neither the number of fields nor the index field is checked. A
  payload that is the tag alone fails with \<open>InvalidCursorTypeError\<close>. Whenever the first
  two fields are the tag and the expected type a cursor is returned, whatever the other
  fields are: its id is the third field, undefined when there is none, and its index is
  \<open>NaN\<close> when there is no fourth field.
\<close>

theorem decodeCursor_invalid_iff:
  "(decodeCursor dec cur ty = Inl InvalidCursorError \<longleftrightarrow>
      dec cur \<noteq> ''C'' \<and> take 2 (dec cur) \<noteq> ''C|'') \<and>
   ((\<forall>r. dec cur \<noteq> CHR ''C'' # r) \<longrightarrow> decodeCursor dec cur ty = Inl InvalidCursorError) \<and>
   (dec cur = ''C'' \<longrightarrow> decodeCursor dec cur ty = Inl (InvalidCursorTypeError ty None)) \<and>
   (\<forall>fs. split_on CHR ''|'' (dec cur) = ''C'' # ty # fs \<longrightarrow>
      (\<exists>c. decodeCursor dec cur ty = Inr c \<and> cursor_id c = at_index fs 0 \<and> cursor_type c = ty \<and>
           (length fs < 2 \<longrightarrow> cursor_index c = NaN)))"
proof -
  have a: "decodeCursor dec cur ty = Inl InvalidCursorError \<longleftrightarrow>
      at_index (split_on CHR ''|'' (dec cur)) 0 \<noteq> Some ''C''"
    by (simp add: decodeCursor_def Let_def split: option.splits)
  have b: "dec cur \<noteq> ''C'' \<and> take 2 (dec cur) \<noteq> ''C|''" if "\<forall>r. dec cur \<noteq> CHR ''C'' # r"
    using that by (cases "dec cur") auto
  have c: "decodeCursor dec cur ty = Inl (InvalidCursorTypeError ty None)" if "dec cur = ''C''"
    by (simp add: decodeCursor_def that at_index_def)
  have d: "\<exists>c. decodeCursor dec cur ty = Inr c \<and> cursor_id c = at_index fs 0 \<and> cursor_type c = ty \<and>
           (length fs < 2 \<longrightarrow> cursor_index c = NaN)"
    if sp: "split_on CHR ''|'' (dec cur) = ''C'' # ty # fs" for fs
  proof -
    have i2: "at_index (''C'' # ty # fs) 2 = at_index fs 0"
      by (cases fs) (simp_all add: at_index_def)
    have i3: "at_index (''C'' # ty # fs) 3 = None" if "length fs < 2"
      using that by (simp add: at_index_def)
    show ?thesis
      unfolding decodeCursor_def sp Let_def
      by (simp add: i2 i3) (simp add: at_index_def)
  qed
  show ?thesis using a b c d unfolding tag_field_iff by blast
qed

theorem decodeCursor_invalid_iff_witness:
  "decodeCursor plain_codec ''garbage'' ''User'' = Inl InvalidCursorError \<and>
   decodeCursor plain_codec ''C'' ''User'' = Inl (InvalidCursorTypeError ''User'' None) \<and>
   (\<exists>c. decodeCursor plain_codec ''C|User'' ''User'' = Inr c \<and> cursor_id c = None \<and>
        cursor_type c = ''User'' \<and> cursor_index c = NaN)"
proof -
  have g: "\<forall>r. plain_codec ''garbage'' \<noteq> CHR ''C'' # r" by simp
  have t: "plain_codec ''C'' = ''C''" by simp
  have sp: "split_on CHR ''|'' (plain_codec ''C|User'') = ''C'' # ''User'' # []" by simp
  show ?thesis
    using decodeCursor_invalid_iff[of plain_codec "''garbage''" "''User''"]
      decodeCursor_invalid_iff[of plain_codec "''C''" "''User''"]
      decodeCursor_invalid_iff[of plain_codec "''C|User''" "''User''"] g t sp
    by (auto simp: at_index_def)
qed

text \<open>
  C7. When the payload has the tag \<open>C\<close> and a type field that differs from the expected
  type, \<open>decodeCursor\<close> fails with \<open>InvalidCursorTypeError\<close> carrying the expected and
  the actual type. A cursor encoded for \<open>User\<close> and decoded for \<open>Post\<close> fails so for
  every id and every index, under any opaque codec with \<open>dec (enc s) = s\<close>.
\<close>

theorem decodeCursor_type_mismatch:
  "(\<forall>t fs. split_on CHR ''|'' (dec cur) = ''C'' # t # fs \<and> t \<noteq> ty \<longrightarrow>
      decodeCursor dec cur ty = Inl (InvalidCursorTypeError ty (Some t))) \<and>
   ((\<forall>s. dec (enc s) = s) \<longrightarrow>
      decodeCursor dec (encodeCursor enc ident ''User'' idx) ''Post'' =
        Inl (InvalidCursorTypeError ''Post'' (Some ''User'')))"
proof -
  have a: "decodeCursor dec c ty' = Inl (InvalidCursorTypeError ty' (Some t))"
    if "split_on CHR ''|'' (dec c) = ''C'' # t # fs" "t \<noteq> ty'" for c t fs ty'
    using that by (simp add: decodeCursor_def at_index_def)
  have b: "decodeCursor dec (encodeCursor enc ident ''User'' idx) ''Post'' =
        Inl (InvalidCursorTypeError ''Post'' (Some ''User''))" if "\<forall>s. dec (enc s) = s"
    by (rule a[where fs = "split_on CHR ''|'' (ident @ ''|'' @ number_to_string idx)"])
       (simp_all add: encodeCursor_def that)
  show ?thesis using a b by blast
qed

theorem decodeCursor_type_mismatch_witness:
  "decodeCursor rev (rev ''C|User|u1|1'') ''Post'' = Inl (InvalidCursorTypeError ''Post'' (Some ''User'')) \<and>
   decodeCursor rev (encodeCursor rev ''u|1'' ''User'' (Num 7)) ''Post'' =
     Inl (InvalidCursorTypeError ''Post'' (Some ''User''))"
proof -
  have s: "split_on CHR ''|'' (rev (rev ''C|User|u1|1'')) = ''C'' # ''User'' # [''u1'', ''1'']"
    by simp
  have t: "''User'' \<noteq> ''Post''" by simp
  have c: "\<forall>s::string. rev (rev s) = s" by simp
  show ?thesis
    using decodeCursor_type_mismatch[of rev "rev ''C|User|u1|1''" "''Post''" rev "''u|1''" "Num 7"] s t c
    by blast
qed

section \<open>Properties of the paginator\<close>

lemma push_edges_eq:
  "0 \<le> i \<Longrightarrow> bound \<le> int (length results) \<Longrightarrow>
   push_edges enc ty skip results bound i acc =
     Inr (acc @ map (edge_at enc ty skip results) [i..bound - 1])"
proof (induction enc ty skip results bound i acc rule: push_edges.induct)
  case (1 enc ty skip results bound i acc)
  show ?case
  proof (cases "i < bound")
    case True
    then have at: "at_index results i = Some (results ! nat i)"
      using 1(2,3) by (simp add: at_index_def)
    have up: "[i..bound - 1] = i # [i + 1..bound - 1]"
      using True by (simp add: upto_rec1)
    show ?thesis
      using True 1(1)[OF True at] 1(2,3)
      by (subst push_edges.simps) (simp add: at up edge_at_def)
  next
    case False
    then show ?thesis by (subst push_edges.simps) simp
  qed
qed

lemma loop_bound_le: "loop_bound results dbTake \<le> int (length results)"
  by (simp add: loop_bound_def)


lemma push_edges_start:
  "push_edges enc ty skip results (loop_bound results dbTake) (if b then 1 else 0) [] =
     Inr (map (edge_at enc ty skip results) [(if b then 1 else 0)..loop_bound results dbTake - 1])"
  using push_edges_eq[where i = "if b then 1 else 0" and bound = "loop_bound results dbTake"
      and results = results and acc = "[]", OF _ loop_bound_le]
  by simp

lemma paginate_unfold:
  assumes "cursor_window dec fo opts = Inr (skip, dc, dbTake)"
    and "select_query opts = Inr query"
    and "orderBy fo = Some ord"
  shows "paginate enc dec fo opts =
     (let results = getMany query (order_key opts ord) (direction ord) skip dbTake;
          es = map (edge_at enc (type_name opts) skip results)
                 [(if truthy (after fo) then 1 else 0)..loop_bound results dbTake - 1]
      in case check_cursor dc opts results of
           Inl e \<Rightarrow> Inl e
         | Inr u \<Rightarrow>
             Inr \<lparr>totalCount = getCount query (order_key opts ord) (direction ord),
                  pageInfo = page_info es results dbTake skip,
                  edges = es\<rparr>)"
  unfolding paginate_def assms Let_def push_edges_start
  by (simp split: sum.splits)

lemma cursor_window_take:
  "cursor_window dec fo opts = Inr (skip, dc, dbTake) \<Longrightarrow>
   dbTake = num_add (first fo) (Num (if truthy (after fo) then 2 else 1))"
  by (auto simp: cursor_window_def split: option.splits sum.splits if_splits)

lemma at_index_first: "at_index xs 0 = (case xs of [] \<Rightarrow> None | x # _ \<Rightarrow> Some x)"
  by (cases xs) (simp_all add: at_index_def)

lemma at_index_last: "at_index xs (int (length xs) - 1) = (if xs = [] then None else Some (last xs))"
  by (cases xs rule: rev_cases) (simp_all add: at_index_def nth_append)

subsection \<open>The examples, evaluated\<close>

lemma example_window:
  "cursor_window plain_codec (example_find 2 (Some ''C|User|u2|2'')) (example_options v rows) =
     Inr (Num 2, Some \<lparr>cursor_id = Some ''u2'', cursor_type = ''User'', cursor_index = Num 2\<rparr>, Num 4)"
  by code_simp

lemma example_query: "select_query (example_options v rows) = Inr (table_query rows)"
  by (simp add: select_query_def example_options_def)

lemma example_orderBy: "orderBy (example_find n cur) = Some example_order"
  by (simp add: example_find_def)

lemma example_middle:
  "paginate plain_codec plain_codec (example_find 2 (Some ''C|User|u2|2'')) (example_options True example_rows) =
     Inr example_middle_page"
  by code_simp

lemma example_window_none:
  "cursor_window dec (example_find n None) (example_options v rows) = Inr (Num 0, None, Num (n + 1))"
  by (simp add: cursor_window_def example_find_def)

lemma example_empty:
  "paginate plain_codec plain_codec (example_find 2 None) (example_options True []) = Inr example_empty_page"
  by code_simp

subsection \<open>Edges\<close>

text \<open>
  C1, as stated, fails when the query answers with more rows than \<open>dbTake\<close>. With
  \<open>first = -1\<close> and no cursor \<open>dbTake\<close> is \<open>0\<close>, a \<open>take\<close> of \<open>0\<close> sets no limit
  and the ten rows of the table are fetched: the last row is left out, nine edges are
  built, although the number of rows is not \<open>dbTake\<close>.
\<close>

theorem paginate_edges_above_window:
  "cursor_window plain_codec (example_find (- 1) None) (example_options True example_rows) =
     Inr (Num 0, None, Num 0) \<and>
   length (getMany (table_query example_rows) ''user.name'' ASC (Num 0) (Num 0)) = 10 \<and>
   paginate plain_codec plain_codec (example_find (- 1) None) (example_options True example_rows) =
     Inr example_long_page \<and>
   length (edges example_long_page) = 9"
  by code_simp

text \<open>
  C1, amended. Take a call that returns, so that it went through the assembly of the
  edges. \<open>dbTake\<close> is \<open>first + 2\<close> when a cursor was supplied (\<open>findOptions.after\<close> is
  a non-empty string) and \<open>first + 1\<close> otherwise. The edges are those of the positions
  of \<open>results\<close> from \<open>1\<close> with a cursor, from \<open>0\<close> without, up to the last row,
  which is left out exactly when \<open>results.length < dbTake\<close> is false; for a query that
  answered with at most \<open>dbTake\<close> rows that is exactly when \<open>results\<close> has
  \<open>dbTake\<close> rows. The edge of position \<open>i\<close> holds row \<open>i\<close> and the cursor encoded
  from the id of the row, the type and \<open>i + skip\<close>.
\<close>

theorem paginate_edges:
  assumes "cursor_window dec fo opts = Inr (skip, dc, dbTake)"
    and "select_query opts = Inr query"
    and "orderBy fo = Some ord"
    and "results = getMany query (order_key opts ord) (direction ord) skip dbTake"
    and "paginate enc dec fo opts = Inr conn"
  shows "dbTake = num_add (first fo) (Num (if truthy (after fo) then 2 else 1)) \<and>
     edges conn =
       map (\<lambda>i. \<lparr>node = results ! nat i,
                  cursor = encodeCursor enc (entity_id (results ! nat i)) (type_name opts)
                             (num_add (Num i) skip)\<rparr>)
         [(if truthy (after fo) then 1 else 0)..
          (if num_lt (Num (int (length results))) dbTake then int (length results)
           else int (length results) - 1) - 1] \<and>
     (\<forall>w. dbTake = Num w \<and> int (length results) \<le> w \<longrightarrow>
        (\<not> num_lt (Num (int (length results))) dbTake) = (int (length results) = w))"
proof -
  have ea: "edge_at enc (type_name opts) skip results =
      (\<lambda>i. \<lparr>node = results ! nat i,
             cursor = encodeCursor enc (entity_id (results ! nat i)) (type_name opts)
                        (num_add (Num i) skip)\<rparr>)"
    by (rule ext) (simp add: edge_at_def)
  have "edges conn = map (edge_at enc (type_name opts) skip results)
                 [(if truthy (after fo) then 1 else 0)..loop_bound results dbTake - 1]"
    using assms(5) unfolding paginate_unfold[OF assms(1-3)] Let_def assms(4)[symmetric]
    by (auto split: sum.splits)
  then have e: "edges conn =
       map (\<lambda>i. \<lparr>node = results ! nat i,
                  cursor = encodeCursor enc (entity_id (results ! nat i)) (type_name opts)
                             (num_add (Num i) skip)\<rparr>)
         [(if truthy (after fo) then 1 else 0)..
          (if num_lt (Num (int (length results))) dbTake then int (length results)
           else int (length results) - 1) - 1]"
    unfolding ea loop_bound_def .
  have c: "(\<not> num_lt (Num (int (length results))) dbTake) = (int (length results) = w)"
    if "dbTake = Num w" "int (length results) \<le> w" for w
    using that by auto
  show ?thesis using cursor_window_take[OF assms(1)] e c by blast
qed

theorem paginate_edges_witness:
  "paginate plain_codec plain_codec (example_find 2 (Some ''C|User|u2|2''))
     (example_options True example_rows) = Inr example_middle_page \<and>
   edges example_middle_page =
     [\<lparr>node = \<lparr>entity_id = ''u3''\<rparr>, cursor = encodeCursor plain_codec ''u3'' ''User'' (Num 3)\<rparr>,
      \<lparr>node = \<lparr>entity_id = ''u4''\<rparr>, cursor = encodeCursor plain_codec ''u4'' ''User'' (Num 4)\<rparr>]"
proof -
  let ?results = "getMany (table_query example_rows)
      (order_key (example_options True example_rows) example_order) (direction example_order)
      (Num 2) (Num 4)"
  have r: "?results = [\<lparr>entity_id = ''u2''\<rparr>, \<lparr>entity_id = ''u3''\<rparr>, \<lparr>entity_id = ''u4''\<rparr>, \<lparr>entity_id = ''u5''\<rparr>]"
    by (simp add: table_query_def example_rows_def)
  have len: "int (length ?results) \<le> 4" unfolding r by simp
  have up: "[1..2::int] = [1, 2]" by (simp add: upto_rec1)
  have ty: "type_name (example_options True example_rows) = ''User''"
    by (simp add: example_options_def)
  show ?thesis
    using paginate_edges[OF example_window example_query example_orderBy refl example_middle]
      example_middle
    unfolding r by (simp add: up ty example_find_def)
qed

subsection \<open>Page information\<close>

text \<open>
  C6, as stated, fails on an empty table when \<open>first\<close> is \<open>-1\<close> and there is no
  cursor: \<open>dbTake\<close> is \<open>0\<close>, which is the number of fetched rows, so
  \<open>hasNextPage\<close> is true.
\<close>

theorem paginate_empty_has_next:
  "getCount (table_query ([] :: Entity list)) ''user.name'' ASC = 0 \<and>
   paginate plain_codec plain_codec (example_find (- 1) None) (example_options True []) =
     Inr \<lparr>totalCount = 0,
          pageInfo = \<lparr>endCursor = None, startCursor = None,
                      hasNextPage = True, hasPreviousPage = False\<rparr>,
          edges = []\<rparr>"
  by code_simp

text \<open>
  C6, amended. For a call that returns: \<open>startCursor\<close> is the cursor of the first edge and
  \<open>endCursor\<close> that of the last one, both absent when there is no edge;
  \<open>hasNextPage\<close> holds exactly when the number of fetched rows is \<open>dbTake\<close>;
  \<open>hasPreviousPage\<close> holds exactly when \<open>skip\<close> is not \<open>0\<close>; \<open>totalCount\<close> is
  what the query counts. When nothing is fetched there is no edge and no start or end
  cursor, and no next page when \<open>first\<close> is a non-negative integer.
\<close>

theorem paginate_pageInfo:
  assumes "cursor_window dec fo opts = Inr (skip, dc, dbTake)"
    and "select_query opts = Inr query"
    and "orderBy fo = Some ord"
    and "results = getMany query (order_key opts ord) (direction ord) skip dbTake"
    and "paginate enc dec fo opts = Inr conn"
  shows "startCursor (pageInfo conn) = (case edges conn of [] \<Rightarrow> None | e # es \<Rightarrow> Some (cursor e)) \<and>
     endCursor (pageInfo conn) = (if edges conn = [] then None else Some (cursor (last (edges conn)))) \<and>
     hasNextPage (pageInfo conn) = (dbTake = Num (int (length results))) \<and>
     hasPreviousPage (pageInfo conn) = (skip \<noteq> Num 0) \<and>
     totalCount conn = getCount query (order_key opts ord) (direction ord) \<and>
     (results = [] \<longrightarrow>
        edges conn = [] \<and> startCursor (pageInfo conn) = None \<and> endCursor (pageInfo conn) = None \<and>
        (\<forall>k. first fo = Num k \<and> 0 \<le> k \<longrightarrow> \<not> hasNextPage (pageInfo conn)))"
proof -
  define es where "es = map (edge_at enc (type_name opts) skip results)
                 [(if truthy (after fo) then 1 else 0)..loop_bound results dbTake - 1]"
  have conn: "conn = \<lparr>totalCount = getCount query (order_key opts ord) (direction ord),
                  pageInfo = page_info es results dbTake skip,
                  edges = es\<rparr>"
    using assms(5) unfolding paginate_unfold[OF assms(1-3)] Let_def assms(4)[symmetric] es_def
    by (auto split: sum.splits)
  have ne: "num_eq (Num n) d = (d = Num n)" for n d by (cases d) auto
  have np: "(\<not> num_eq s (Num 0)) = (s \<noteq> Num 0)" for s by (cases s) auto
  have p1: "startCursor (pageInfo conn) = (case edges conn of [] \<Rightarrow> None | e # es \<Rightarrow> Some (cursor e))"
    by (simp add: conn page_info_def at_index_first split: list.splits)
  have p2: "endCursor (pageInfo conn) = (if edges conn = [] then None else Some (cursor (last (edges conn))))"
    by (simp add: conn page_info_def at_index_last)
  have p3: "hasNextPage (pageInfo conn) = (dbTake = Num (int (length results)))"
    by (simp add: conn page_info_def ne)
  have p4: "hasPreviousPage (pageInfo conn) = (skip \<noteq> Num 0)"
    by (simp add: conn page_info_def np)
  have p5: "totalCount conn = getCount query (order_key opts ord) (direction ord)"
    by (simp add: conn)
  have p6: "edges conn = [] \<and> startCursor (pageInfo conn) = None \<and> endCursor (pageInfo conn) = None \<and>
        (\<forall>k. first fo = Num k \<and> 0 \<le> k \<longrightarrow> \<not> hasNextPage (pageInfo conn))"
    if empty: "results = []"
  proof -
    have e: "edges conn = []" using empty by (simp add: conn es_def loop_bound_def)
    have "dbTake \<noteq> Num 0" if "first fo = Num k" "0 \<le> k" for k
      using cursor_window_take[OF assms(1)] that by auto
    then show ?thesis using e p1 p2 p3 empty by auto
  qed
  show ?thesis using p1 p2 p3 p4 p5 p6 by blast
qed

theorem paginate_pageInfo_witness:
  "paginate plain_codec plain_codec (example_find 2 (Some ''C|User|u2|2''))
     (example_options True example_rows) = Inr example_middle_page \<and>
   startCursor (pageInfo example_middle_page) = Some ''C|User|u3|3'' \<and>
   endCursor (pageInfo example_middle_page) = Some ''C|User|u4|4'' \<and>
   hasNextPage (pageInfo example_middle_page) \<and>
   hasPreviousPage (pageInfo example_middle_page) \<and>
   totalCount example_middle_page = 10 \<and>
   paginate plain_codec plain_codec (example_find 2 None) (example_options True []) =
     Inr example_empty_page \<and>
   edges example_empty_page = [] \<and>
   \<not> hasNextPage (pageInfo example_empty_page) \<and>
   startCursor (pageInfo example_empty_page) = None \<and>
   endCursor (pageInfo example_empty_page) = None \<and>
   totalCount example_empty_page = 0"
proof -
  let ?key = "order_key (example_options True example_rows) example_order"
  have r: "getMany (table_query example_rows) ?key (direction example_order) (Num 2) (Num 4) =
      [\<lparr>entity_id = ''u2''\<rparr>, \<lparr>entity_id = ''u3''\<rparr>, \<lparr>entity_id = ''u4''\<rparr>, \<lparr>entity_id = ''u5''\<rparr>]"
    by (simp add: table_query_def example_rows_def)
  have c: "getCount (table_query example_rows) ?key (direction example_order) = 10"
    by (simp add: table_query_def example_rows_def)
  have e: "edges example_middle_page =
      [\<lparr>node = \<lparr>entity_id = ''u3''\<rparr>, cursor = ''C|User|u3|3''\<rparr>,
       \<lparr>node = \<lparr>entity_id = ''u4''\<rparr>, cursor = ''C|User|u4|4''\<rparr>]"
    by (simp add: example_middle_page_def)
  let ?key0 = "order_key (example_options True []) example_order"
  have r0: "getMany (table_query ([] :: Entity list)) ?key0 (direction example_order) (Num 0) (Num (2 + 1)) = []"
    by (simp add: table_query_def)
  have c0: "getCount (table_query ([] :: Entity list)) ?key0 (direction example_order) = 0"
    by (simp add: table_query_def)
  have f: "first (example_find 2 None) = Num 2" by (simp add: example_find_def)
  show ?thesis
    using paginate_pageInfo[OF example_window example_query example_orderBy refl example_middle]
      paginate_pageInfo[OF example_window_none example_query example_orderBy refl example_empty]
      example_middle example_empty
    unfolding r c r0 c0 e f by simp
qed

subsection \<open>Page size\<close>




subsection \<open>Skip and window\<close>

text \<open>
  C5, as stated, fails when \<open>findOptions.after\<close> is present and is the empty string:
  the string is not decoded (decoding it would fail), \<open>skip\<close> is \<open>0\<close>, the window is
  \<open>first + 1\<close> and the first page is returned.
\<close>

theorem cursor_window_empty_after:
  "after (example_find 2 (Some '''')) = Some '''' \<and>
   cursor_window plain_codec (example_find 2 (Some '''')) (example_options True example_rows) =
     Inr (Num 0, None, Num 3) \<and>
   decodeCursor plain_codec '''' ''User'' = Inl InvalidCursorError \<and>
   paginate plain_codec plain_codec (example_find 2 (Some '''')) (example_options True example_rows) =
     Inr example_first_page"
  by code_simp

text \<open>
  C5, amended. When \<open>findOptions.after\<close> is absent or the empty string, \<open>skip\<close> is
  \<open>0\<close>, there is no decoded cursor and \<open>dbTake\<close> is \<open>first + 1\<close>. When it is a
  non-empty string it is decoded against the type of the options: an error of
  \<open>decodeCursor\<close> is the error of \<open>paginate\<close>, and otherwise \<open>skip\<close> is the index
  of the decoded cursor and \<open>dbTake\<close> is \<open>first + 2\<close>.
\<close>

theorem cursor_window_cases:
  "(after fo = None \<or> after fo = Some '''' \<longrightarrow>
      cursor_window dec fo opts = Inr (Num 0, None, num_add (first fo) (Num 1))) \<and>
   (\<forall>c. after fo = Some c \<and> c \<noteq> '''' \<longrightarrow>
      cursor_window dec fo opts =
        (case decodeCursor dec c (type_name opts) of
           Inl e \<Rightarrow> Inl e
         | Inr d \<Rightarrow> Inr (cursor_index d, Some d, num_add (first fo) (Num 2))) \<and>
      (\<forall>e. decodeCursor dec c (type_name opts) = Inl e \<longrightarrow> paginate enc dec fo opts = Inl e))"
  by (auto simp: cursor_window_def paginate_def split: sum.splits)

theorem cursor_window_cases_witness:
  "cursor_window plain_codec (example_find 2 None) (example_options True example_rows) =
     Inr (Num 0, None, Num 3) \<and>
   cursor_window plain_codec (example_find 2 (Some ''C|User|u2|2'')) (example_options True example_rows) =
     Inr (Num 2, Some \<lparr>cursor_id = Some ''u2'', cursor_type = ''User'', cursor_index = Num 2\<rparr>, Num 4) \<and>
   paginate plain_codec plain_codec (example_find 2 (Some ''C|Post|p2|2'')) (example_options True example_rows) =
     Inl (InvalidCursorTypeError ''User'' (Some ''Post''))"
proof -
  have a: "after (example_find 2 None) = None" by (simp add: example_find_def)
  have b: "after (example_find 2 (Some c)) = Some c" for c by (simp add: example_find_def)
  have f: "first (example_find 2 c) = Num 2" for c by (simp add: example_find_def)
  have t: "type_name (example_options True example_rows) = ''User''" by (simp add: example_options_def)
  have d1: "decodeCursor plain_codec ''C|User|u2|2'' ''User'' =
      Inr \<lparr>cursor_id = Some ''u2'', cursor_type = ''User'', cursor_index = Num 2\<rparr>"
    by code_simp
  have d2: "decodeCursor plain_codec ''C|Post|p2|2'' ''User'' = Inl (InvalidCursorTypeError ''User'' (Some ''Post''))"
    by code_simp
  have n1: "''C|User|u2|2'' \<noteq> ''''" and n2: "''C|Post|p2|2'' \<noteq> ''''" by simp_all
  show ?thesis
    using cursor_window_cases[of "example_find 2 None" plain_codec "example_options True example_rows" plain_codec]
      cursor_window_cases[of "example_find 2 (Some ''C|User|u2|2'')" plain_codec "example_options True example_rows" plain_codec]
      cursor_window_cases[of "example_find 2 (Some ''C|Post|p2|2'')" plain_codec "example_options True example_rows" plain_codec]
    unfolding a b f t by (simp add: d1 d2)
qed

subsection \<open>Page sizes that are not positive\<close>

text \<open>
  C8, as stated, fails: with \<open>first = 0\<close> and no cursor \<open>paginate\<close> queries the table
  and returns a connection without edges.
\<close>

theorem paginate_first_zero:
  "paginate plain_codec plain_codec (example_find 0 None) (example_options True example_rows) =
     Inr (example_no_page 10)"
  by code_simp

text \<open>
  C8, amended. \<open>paginate\<close> does not check \<open>first\<close>. With \<open>first \<le> 0\<close>, no cursor,
  a query and an order, it asks the query for the count and for \<open>first + 1\<close> rows from
  position \<open>0\<close>, and returns a connection.
\<close>

theorem paginate_nonpositive_first:
  assumes "first fo = Num k" and "k \<le> 0"
    and "\<not> truthy (after fo)"
    and "select_query opts = Inr query"
    and "orderBy fo = Some ord"
  shows "\<exists>conn. paginate enc dec fo opts = Inr conn \<and>
     totalCount conn = getCount query (order_key opts ord) (direction ord) \<and>
     hasNextPage (pageInfo conn) =
       (int (length (getMany query (order_key opts ord) (direction ord) (Num 0) (Num (k + 1)))) = k + 1)"
proof -
  have w: "cursor_window dec fo opts = Inr (Num 0, None, Num (k + 1))"
    using assms(1,3) by (cases "after fo") (simp_all add: cursor_window_def)
  show ?thesis
    unfolding paginate_unfold[OF w assms(4,5)] Let_def
    by (simp add: check_cursor_def page_info_def)
qed

theorem paginate_nonpositive_first_witness:
  "\<exists>conn. paginate plain_codec plain_codec (example_find (- 1) None) (example_options True []) = Inr conn \<and>
     totalCount conn = 0 \<and> hasNextPage (pageInfo conn)"
proof -
  have f: "first (example_find (- 1) None) = Num (- 1)" by (simp add: example_find_def)
  have k: "(- 1 :: int) \<le> 0" by simp
  have a: "\<not> truthy (after (example_find (- 1) None))" by (simp add: example_find_def)
  show ?thesis
    using paginate_nonpositive_first[OF f k a example_query example_orderBy,
        of plain_codec plain_codec True "[] :: Entity list"]
    by (simp add: table_query_def)
qed

subsection \<open>An absent order\<close>

text \<open>
  C10, as stated, fails: with \<open>orderBy\<close> absent, a cursor that does not decode makes
  \<open>paginate\<close> fail with \<open>InvalidCursorError\<close>, and options without a query builder
  and without a repository make it fail with the \<open>Error\<close> of the missing query, both
  before \<open>orderBy\<close> is read.
\<close>

theorem paginate_orderBy_absent_earlier_failure:
  "paginate plain_codec plain_codec \<lparr>first = Num 2, orderBy = None, after = Some ''garbage''\<rparr>
     (example_options True example_rows) = Inl InvalidCursorError \<and>
   paginate plain_codec plain_codec \<lparr>first = Num 2, orderBy = None, after = None\<rparr> example_no_source =
     Inl (Error ''A QueryBuilder or Repository object must be provided to paginate.'')"
  by code_simp

text \<open>
  C10, amended. With \<open>orderBy\<close> absent \<open>paginate\<close> never returns a connection. When
  the cursor is a non-empty string that does not decode, it fails with the error of
  \<open>decodeCursor\<close>. Otherwise, when there is neither a query builder nor a repository,
  it fails with the \<open>Error\<close> of the missing query; and when there is one of them, it
  fails with \<open>TypeError\<close>.
\<close>

theorem paginate_orderBy_absent:
  assumes "orderBy fo = None"
  shows "(\<forall>conn. paginate enc dec fo opts \<noteq> Inr conn) \<and>
     (\<forall>c e. after fo = Some c \<and> c \<noteq> '''' \<and> decodeCursor dec c (type_name opts) = Inl e \<longrightarrow>
        paginate enc dec fo opts = Inl e) \<and>
     (after fo = None \<or> after fo = Some '''' \<or>
      (\<exists>c d. after fo = Some c \<and> decodeCursor dec c (type_name opts) = Inr d) \<longrightarrow>
        (if queryBuilder opts = None \<and> repository opts = None
         then paginate enc dec fo opts =
                Inl (Error ''A QueryBuilder or Repository object must be provided to paginate.'')
         else paginate enc dec fo opts = Inl TypeError))"
proof -
  have never: "paginate enc dec fo opts \<noteq> Inr conn" for conn
    using assms by (auto simp: paginate_def split: sum.splits prod.splits)
  have decode: "paginate enc dec fo opts = Inl e"
    if "after fo = Some c" "c \<noteq> ''''" "decodeCursor dec c (type_name opts) = Inl e" for c e
    using that by (simp add: paginate_def cursor_window_def)
  have window: "\<exists>w. cursor_window dec fo opts = Inr w"
    if "after fo = None \<or> after fo = Some '''' \<or>
      (\<exists>c d. after fo = Some c \<and> decodeCursor dec c (type_name opts) = Inr d)"
    using that by (auto simp: cursor_window_def)
  have rest: "if queryBuilder opts = None \<and> repository opts = None
         then paginate enc dec fo opts =
                Inl (Error ''A QueryBuilder or Repository object must be provided to paginate.'')
         else paginate enc dec fo opts = Inl TypeError"
    if "\<exists>w. cursor_window dec fo opts = Inr w"
    using that assms
    by (auto simp: paginate_def select_query_def split: option.splits prod.splits)
  show ?thesis using never decode window rest by blast
qed

theorem paginate_orderBy_absent_witness:
  "paginate plain_codec plain_codec \<lparr>first = Num 2, orderBy = None, after = None\<rparr>
     (example_options True example_rows) = Inl TypeError \<and>
   paginate plain_codec plain_codec \<lparr>first = Num 2, orderBy = None, after = None\<rparr>
     example_no_source =
     Inl (Error ''A QueryBuilder or Repository object must be provided to paginate.'') \<and>
   paginate plain_codec plain_codec \<lparr>first = Num 2, orderBy = None, after = Some ''C|Post|p2|2''\<rparr>
     (example_options True example_rows) = Inl (InvalidCursorTypeError ''User'' (Some ''Post''))"
proof -
  let ?fo = "\<lparr>first = Num 2, orderBy = None, after = None\<rparr> :: string FindOptions"
  let ?fp = "\<lparr>first = Num 2, orderBy = None, after = Some ''C|Post|p2|2''\<rparr> :: string FindOptions"
  have d: "decodeCursor plain_codec ''C|Post|p2|2'' ''User'' = Inl (InvalidCursorTypeError ''User'' (Some ''Post''))"
    by code_simp
  show ?thesis
    using paginate_orderBy_absent[of ?fo plain_codec plain_codec "example_options True example_rows"]
      paginate_orderBy_absent[of ?fo plain_codec plain_codec example_no_source]
      paginate_orderBy_absent[of ?fp plain_codec plain_codec "example_options True example_rows"] d
    by (simp add: example_options_def example_no_source_def)
qed

subsection \<open>The cursor check\<close>

text \<open>
  When at least one row is fetched, the check fails with \<open>InvalidCursorError\<close> exactly
  when validation is on and the id of the first row is not the id of the cursor.
\<close>

lemma check_cursor_stale:
  "check_cursor (Some c) opts (r # rs) =
     (if validateCursor opts \<and> cursor_id c \<noteq> Some (entity_id r) then Inl InvalidCursorError else Inr ())"
  by (simp add: check_cursor_def at_index_def)

text \<open>
  When a cursor is supplied and decodes, validation is on and nothing is fetched,
  \<open>paginate\<close> fails with \<open>TypeError\<close>.
\<close>

lemma paginate_empty_window:
  assumes "cursor_window dec fo opts = Inr (skip, Some c, dbTake)"
    and "select_query opts = Inr query"
    and "orderBy fo = Some ord"
    and "validateCursor opts"
    and "getMany query (order_key opts ord) (direction ord) skip dbTake = []"
  shows "paginate enc dec fo opts = Inl TypeError"
  unfolding paginate_unfold[OF assms(1-3)] Let_def assms(5)
  using assms(4) by (simp add: check_cursor_def at_index_def)

text \<open>
  C3. The claim asks for \<open>InvalidCursorError\<close> when validation is on and the cursor
  points past the end of the rows. Here the cursor carries index \<open>50\<close> over a table of
  ten rows: nothing is fetched, and reading the id of the first row fails with
  \<open>TypeError\<close>.
\<close>

theorem paginate_cursor_past_end:
  "paginate plain_codec plain_codec (example_find 2 (Some (encodeCursor plain_codec ''u9'' ''User'' (Num 50))))
     (example_options True example_rows) = Inl TypeError"
  by code_simp

end
